theory Spec2Isabelle
  imports Main "HOL-Library.Sublist"
begin

section \<open>JavaScript values handed to the completion handlers\<close>

text \<open>
  The scripts of \<^verbatim>\<open>jsTests/findContracts.js\<close> only test values for truthiness, read one
  property of them and print them. A transaction hash and a contract address are strings
  that may be absent, so a value is \<^verbatim>\<open>undefined\<close>, \<^verbatim>\<open>null\<close> or a string; the empty
  string is the third falsy value.
\<close>

datatype jsval = Undefined | Null | Str string

fun truthy :: "jsval \<Rightarrow> bool" where
  "truthy Undefined = False"
| "truthy Null = False"
| "truthy (Str s) = (s \<noteq> [])"

text \<open>
  The value a lookup delivers to its completion handler is either a primitive value
  (in particular an absent one) or an object of the expected shape. A block has the array
  \<^verbatim>\<open>transactions\<close>, a receipt has the field \<^verbatim>\<open>contractAddress\<close>, which is
  \<open>Undefined\<close> when the object does not have it.
\<close>

datatype 'a jsarg = Prim jsval | Obj 'a

record block =
  transactions :: "jsval list"

record receipt =
  contractAddress :: jsval

text \<open>Reading a property of \<^verbatim>\<open>undefined\<close> or \<^verbatim>\<open>null\<close> throws.\<close>

datatype error = TypeError

section \<open>Effects of a handler\<close>

text \<open>
  \<^verbatim>\<open>utils\<close> and the console are outside the scripts. A call of \<^verbatim>\<open>utils.getBlockData\<close>
  or \<^verbatim>\<open>utils.getTxReceipt\<close> is recorded as an event holding its three arguments: the
  label, the key and the completion handler. The call registers the handler and returns;
  the provider runs the handler later with the value it delivers. A call of
  \<^verbatim>\<open>console.log\<close> is recorded as the line it prints. A handler either throws or returns,
  and then its effects are the events it caused, in order.
\<close>

datatype event =
    ConsoleLog string
  | GetTxReceipt string jsval "receipt jsarg \<Rightarrow> error + event list"
  | GetBlockData string nat "block jsarg \<Rightarrow> error + event list"

subsection \<open>What \<^verbatim>\<open>console.log\<close> prints\<close>

text \<open>
  \<^verbatim>\<open>console.log\<close> prints, as plain text, its arguments separated by one space. A
  string argument is printed as it is (the first one holds no \<^verbatim>\<open>%\<close> directive here),
  a number in decimal (the block numbers of the scripts are naturals below \<open>258928\<close>).
\<close>

datatype logarg = ArgNum nat | ArgVal jsval

definition digit_char :: "nat \<Rightarrow> char" where
  "digit_char d = ''0123456789'' ! d"

function show_nat :: "nat \<Rightarrow> string" where
  "show_nat n =
     (if n < 10 then [digit_char n]
      else show_nat (n div 10) @ [digit_char (n mod 10)])"
  by pat_completeness auto
termination
  by (relation "measure (\<lambda>n. n)") auto

declare show_nat.simps [simp del]

fun render_val :: "jsval \<Rightarrow> string" where
  "render_val Undefined = ''undefined''"
| "render_val Null = ''null''"
| "render_val (Str s) = s"

fun render :: "logarg \<Rightarrow> string" where
  "render (ArgNum n) = show_nat n"
| "render (ArgVal v) = render_val v"

fun join_space :: "string list \<Rightarrow> string" where
  "join_space [] = []"
| "join_space [x] = x"
| "join_space (x # y # zs) = x @ '' '' @ join_space (y # zs)"

definition console_log :: "logarg list \<Rightarrow> event" where
  "console_log args = ConsoleLog (join_space (map render args))"

section \<open>The first script: blocks 116611 to 116710\<close>

text \<open>
  \<^verbatim>\<open>function(txRes) { if (txRes.contractAddress) console.log("block number = ", i,
  "contract address = ", txRes.contractAddress); }\<close>, with the \<^verbatim>\<open>i\<close> of the enclosing
  loop iteration (\<^verbatim>\<open>let\<close> gives every iteration its own binding).
\<close>

definition get_contractAddress :: "receipt jsarg \<Rightarrow> error + jsval" where
  "get_contractAddress txRes =
     (case txRes of
        Prim Undefined \<Rightarrow> Inl TypeError
      | Prim Null \<Rightarrow> Inl TypeError
      | Prim (Str s) \<Rightarrow> Inr Undefined
      | Obj r \<Rightarrow> Inr (contractAddress r))"

definition getTxReceipt_callback_1 :: "nat \<Rightarrow> receipt jsarg \<Rightarrow> error + event list" where
  "getTxReceipt_callback_1 i txRes =
     (case get_contractAddress txRes of
        Inl e \<Rightarrow> Inl e
      | Inr a \<Rightarrow>
          if truthy a
          then Inr [console_log [ArgVal (Str ''block number = ''), ArgNum i,
                                 ArgVal (Str ''contract address = ''), ArgVal a]]
          else Inr [])"

text \<open>
  The loop over \<^verbatim>\<open>res.transactions\<close>, from index \<open>j\<close> on. The \<^verbatim>\<open>return\<close> at a falsy
  hash leaves the handler, and nothing follows the loop in the handler.
\<close>

function transactions_loop_1 :: "nat \<Rightarrow> jsval list \<Rightarrow> nat \<Rightarrow> event list" where
  "transactions_loop_1 i txs j =
     (if j < length txs then
        (let txHash = txs ! j in
         if \<not> truthy txHash then []
         else GetTxReceipt ''left'' txHash (getTxReceipt_callback_1 i)
                # transactions_loop_1 i txs (j + 1))
      else [])"
  by pat_completeness auto
termination
  by (relation "measure (\<lambda>(i, txs, j). length txs - j)") auto

declare transactions_loop_1.simps [simp del]

text \<open>
  \<^verbatim>\<open>function(res) { if (!res) return; for (...) {...} }\<close>. A truthy primitive has no
  property \<^verbatim>\<open>transactions\<close>, so reading its \<^verbatim>\<open>length\<close> throws.
\<close>

definition getBlockData_callback_1 :: "nat \<Rightarrow> block jsarg \<Rightarrow> error + event list" where
  "getBlockData_callback_1 i res =
     (case res of
        Prim p \<Rightarrow> if \<not> truthy p then Inr [] else Inl TypeError
      | Obj b \<Rightarrow> Inr (transactions_loop_1 i (transactions b) 0))"

function script_1_loop :: "nat \<Rightarrow> event list" where
  "script_1_loop i =
     (if i < 116711
      then GetBlockData ''left'' i (getBlockData_callback_1 i) # script_1_loop (i + 1)
      else [])"
  by pat_completeness auto
termination
  by (relation "measure (\<lambda>i. 116711 - i)") auto

declare script_1_loop.simps [simp del]

definition script_1 :: "event list" where
  "script_1 = script_1_loop 116611"

section \<open>The second script: blocks 258728 to 258927\<close>

text \<open>
  The second script of the file, translated on its own: the same handlers written out
  again, under a loop with other bounds.
\<close>

definition getTxReceipt_callback_2 :: "nat \<Rightarrow> receipt jsarg \<Rightarrow> error + event list" where
  "getTxReceipt_callback_2 i txRes =
     (case get_contractAddress txRes of
        Inl e \<Rightarrow> Inl e
      | Inr a \<Rightarrow>
          if truthy a
          then Inr [console_log [ArgVal (Str ''block number = ''), ArgNum i,
                                 ArgVal (Str ''contract address = ''), ArgVal a]]
          else Inr [])"

function transactions_loop_2 :: "nat \<Rightarrow> jsval list \<Rightarrow> nat \<Rightarrow> event list" where
  "transactions_loop_2 i txs j =
     (if j < length txs then
        (let txHash = txs ! j in
         if \<not> truthy txHash then []
         else GetTxReceipt ''left'' txHash (getTxReceipt_callback_2 i)
                # transactions_loop_2 i txs (j + 1))
      else [])"
  by pat_completeness auto
termination
  by (relation "measure (\<lambda>(i, txs, j). length txs - j)") auto

declare transactions_loop_2.simps [simp del]

definition getBlockData_callback_2 :: "nat \<Rightarrow> block jsarg \<Rightarrow> error + event list" where
  "getBlockData_callback_2 i res =
     (case res of
        Prim p \<Rightarrow> if \<not> truthy p then Inr [] else Inl TypeError
      | Obj b \<Rightarrow> Inr (transactions_loop_2 i (transactions b) 0))"

function script_2_loop :: "nat \<Rightarrow> event list" where
  "script_2_loop i =
     (if i < 258928
      then GetBlockData ''left'' i (getBlockData_callback_2 i) # script_2_loop (i + 1)
      else [])"
  by pat_completeness auto
termination
  by (relation "measure (\<lambda>i. 258928 - i)") auto

declare script_2_loop.simps [simp del]

definition script_2 :: "event list" where
  "script_2 = script_2_loop 258728"

section \<open>Reading the events\<close>

text \<open>The label and hash of every receipt lookup among some events, in order.\<close>

fun receipt_lookups :: "event list \<Rightarrow> (string \<times> jsval) list" where
  "receipt_lookups [] = []"
| "receipt_lookups (GetTxReceipt l h cb # es) = (l, h) # receipt_lookups es"
| "receipt_lookups (e # es) = receipt_lookups es"

text \<open>The label and number of every block lookup among some events, in order.\<close>

fun block_lookups :: "event list \<Rightarrow> (string \<times> nat) list" where
  "block_lookups [] = []"
| "block_lookups (GetBlockData l n cb # es) = (l, n) # block_lookups es"
| "block_lookups (e # es) = block_lookups es"

section \<open>Decimal numerals and the loops\<close>

lemma show_nat_digit: "n < 10 \<Longrightarrow> show_nat n = [digit_char n]"
  by (simp add: show_nat.simps [of n])

lemma show_nat_step:
  "10 \<le> n \<Longrightarrow> show_nat n = show_nat (n div 10) @ [digit_char (n mod 10)]"
  by (simp add: show_nat.simps [of n])

lemma show_nat_116611: "show_nat 116611 = ''116611''"
  by (simp add: show_nat_digit show_nat_step digit_char_def)

lemma truthy_iff: "truthy v \<longleftrightarrow> (\<exists>s. v = Str s \<and> s \<noteq> [])"
  by (cases v) simp_all

lemma transactions_loop_1_takeWhile:
  "transactions_loop_1 i txs j =
     map (\<lambda>h. GetTxReceipt ''left'' h (getTxReceipt_callback_1 i))
       (takeWhile truthy (drop j txs))"
proof (induction i txs j rule: transactions_loop_1.induct)
  case (1 i txs j)
  show ?case
  proof (cases "j < length txs")
    case False
    then show ?thesis
      by (simp add: transactions_loop_1.simps [of i txs j])
  next
    case True
    then have d: "drop j txs = txs ! j # drop (j + 1) txs"
      by (simp add: Cons_nth_drop_Suc)
    show ?thesis
    proof (cases "truthy (txs ! j)")
      case False
      with True d show ?thesis
        by (simp add: transactions_loop_1.simps [of i txs j])
    next
      case t: True
      with True have "transactions_loop_1 i txs (j + 1) =
          map (\<lambda>h. GetTxReceipt ''left'' h (getTxReceipt_callback_1 i))
            (takeWhile truthy (drop (j + 1) txs))"
        using "1.IH" by simp
      with True t d show ?thesis
        by (simp add: transactions_loop_1.simps [of i txs j])
    qed
  qed
qed

lemma transactions_loop_2_takeWhile:
  "transactions_loop_2 i txs j =
     map (\<lambda>h. GetTxReceipt ''left'' h (getTxReceipt_callback_2 i))
       (takeWhile truthy (drop j txs))"
proof (induction i txs j rule: transactions_loop_2.induct)
  case (1 i txs j)
  show ?case
  proof (cases "j < length txs")
    case False
    then show ?thesis
      by (simp add: transactions_loop_2.simps [of i txs j])
  next
    case True
    then have d: "drop j txs = txs ! j # drop (j + 1) txs"
      by (simp add: Cons_nth_drop_Suc)
    show ?thesis
    proof (cases "truthy (txs ! j)")
      case False
      with True d show ?thesis
        by (simp add: transactions_loop_2.simps [of i txs j])
    next
      case t: True
      with True have "transactions_loop_2 i txs (j + 1) =
          map (\<lambda>h. GetTxReceipt ''left'' h (getTxReceipt_callback_2 i))
            (takeWhile truthy (drop (j + 1) txs))"
        using "1.IH" by simp
      with True t d show ?thesis
        by (simp add: transactions_loop_2.simps [of i txs j])
    qed
  qed
qed

lemma script_1_loop_upt:
  "script_1_loop i = map (\<lambda>n. GetBlockData ''left'' n (getBlockData_callback_1 n)) [i..<116711]"
proof (induction i rule: script_1_loop.induct)
  case (1 i)
  show ?case
  proof (cases "i < 116711")
    case True
    with "1.IH" show ?thesis
      by (simp add: script_1_loop.simps [of i] upt_conv_Cons)
  next
    case False
    then show ?thesis
      by (simp add: script_1_loop.simps [of i])
  qed
qed

lemma script_2_loop_upt:
  "script_2_loop i = map (\<lambda>n. GetBlockData ''left'' n (getBlockData_callback_2 n)) [i..<258928]"
proof (induction i rule: script_2_loop.induct)
  case (1 i)
  show ?case
  proof (cases "i < 258928")
    case True
    with "1.IH" show ?thesis
      by (simp add: script_2_loop.simps [of i] upt_conv_Cons)
  next
    case False
    then show ?thesis
      by (simp add: script_2_loop.simps [of i])
  qed
qed

lemma getTxReceipt_callbacks_eq: "getTxReceipt_callback_1 = getTxReceipt_callback_2"
  by (intro ext) (simp add: getTxReceipt_callback_1_def getTxReceipt_callback_2_def)

lemma getBlockData_callbacks_eq: "getBlockData_callback_1 = getBlockData_callback_2"
  by (intro ext)
    (simp add: getBlockData_callback_1_def getBlockData_callback_2_def
      transactions_loop_1_takeWhile transactions_loop_2_takeWhile getTxReceipt_callbacks_eq
      split: jsarg.split)

lemma block_lookups_map:
  "block_lookups (map (\<lambda>n. GetBlockData l n (f n)) ns) = map (Pair l) ns"
  by (induction ns) simp_all

lemma count_list_Pair:
  "count_list (map (Pair l) ns) (l', n) = (if l = l' then count_list ns n else 0)"
  by (induction ns) auto

lemma count_list_upt:
  "count_list [a..<b] n = (if a \<le> n \<and> n < b then 1 else 0)"
  by (induction b) auto

section \<open>The block completion handler\<close>

text \<open>
  Claim C5. When the block lookup delivers an absent (falsy) value, the completion handler
  returns at once: it reads no transaction hash, issues no receipt lookup and prints
  nothing.
\<close>

theorem absent_block_no_processing:
  assumes "\<not> truthy p"
  shows "getBlockData_callback_1 i (Prim p) = Inr []"
  using assms by (simp add: getBlockData_callback_1_def)

theorem absent_block_no_processing_witness:
  "\<not> truthy Undefined \<and> \<not> truthy Null \<and> \<not> truthy (Str [])
   \<and> getBlockData_callback_1 116611 (Prim Undefined) = Inr []
   \<and> getBlockData_callback_1 116611 (Prim Null) = Inr []
   \<and> getBlockData_callback_1 116611 (Prim (Str [])) = Inr []"
  using absent_block_no_processing [of Undefined 116611]
    absent_block_no_processing [of Null 116611]
    absent_block_no_processing [of "Str []" 116611]
  by simp

text \<open>
  Claim C6. For a block whose list of transactions is empty, the completion handler issues
  no receipt lookup and prints no line: it returns without any effect.
\<close>

theorem empty_block_no_effect:
  assumes "transactions b = []"
  shows "getBlockData_callback_1 i (Obj b) = Inr []"
  using assms
  by (simp add: getBlockData_callback_1_def transactions_loop_1.simps [of i "[]" 0])

theorem empty_block_no_effect_witness:
  "transactions \<lparr>transactions = []\<rparr> = []
   \<and> getBlockData_callback_1 116700 (Obj \<lparr>transactions = []\<rparr>) = Inr []"
  using empty_block_no_effect [of "\<lparr>transactions = []\<rparr>" 116700]
  by simp

text \<open>
  Claim C10. For every block delivered to the completion handler, the receipt lookups it
  issues are exactly the longest prefix of truthy hashes of the block's transaction list,
  in the order of the list, each with the label \<open>left\<close> and the hash as it is in the list
  (and with the receipt handler of that block number); the handler does nothing else.
\<close>

theorem lookups_are_truthy_prefix:
  "getBlockData_callback_1 i (Obj b) =
     Inr (map (\<lambda>h. GetTxReceipt ''left'' h (getTxReceipt_callback_1 i))
            (takeWhile truthy (transactions b)))"
  by (simp add: getBlockData_callback_1_def transactions_loop_1_takeWhile)

text \<open>
  Claim C4. At the first falsy hash of a block the handler returns: the lookups issued are
  those of the hashes before it, so neither that hash nor any hash after it is looked up,
  whatever follows. Both scripts do so.
\<close>

theorem first_missing_hash_ends_handler:
  assumes "\<forall>h \<in> set pre. truthy h" and "\<not> truthy x"
    and "transactions b = pre @ x # post"
  shows "getBlockData_callback_1 i (Obj b) =
           Inr (map (\<lambda>h. GetTxReceipt ''left'' h (getTxReceipt_callback_1 i)) pre)
         \<and> getBlockData_callback_2 i (Obj b) =
           Inr (map (\<lambda>h. GetTxReceipt ''left'' h (getTxReceipt_callback_2 i)) pre)"
proof -
  from assms have "takeWhile truthy (transactions b) = pre"
    by (simp add: takeWhile_tail)
  then show ?thesis
    by (simp add: getBlockData_callback_1_def getBlockData_callback_2_def
        transactions_loop_1_takeWhile transactions_loop_2_takeWhile)
qed

theorem first_missing_hash_ends_handler_witness:
  "getBlockData_callback_1 116650
       (Obj \<lparr>transactions = [Str ''0x01'', Str ''0x02'', Str [], Str ''0x03'', Str ''0x04'']\<rparr>) =
     Inr [GetTxReceipt ''left'' (Str ''0x01'') (getTxReceipt_callback_1 116650),
          GetTxReceipt ''left'' (Str ''0x02'') (getTxReceipt_callback_1 116650)]
   \<and> getBlockData_callback_2 258800
       (Obj \<lparr>transactions = [Str ''0x01'', Str ''0x02'', Str [], Str ''0x03'', Str ''0x04'']\<rparr>) =
     Inr [GetTxReceipt ''left'' (Str ''0x01'') (getTxReceipt_callback_2 258800),
          GetTxReceipt ''left'' (Str ''0x02'') (getTxReceipt_callback_2 258800)]"
  using first_missing_hash_ends_handler
      [of "[Str ''0x01'', Str ''0x02'']" "Str []"
          "\<lparr>transactions = [Str ''0x01'', Str ''0x02'', Str [], Str ''0x03'', Str ''0x04'']\<rparr>"
          "[Str ''0x03'', Str ''0x04'']" 116650]
    first_missing_hash_ends_handler
      [of "[Str ''0x01'', Str ''0x02'']" "Str []"
          "\<lparr>transactions = [Str ''0x01'', Str ''0x02'', Str [], Str ''0x03'', Str ''0x04'']\<rparr>"
          "[Str ''0x03'', Str ''0x04'']" 258800]
  by simp

text \<open>
  Claim C3 says that a falsy hash ends the processing of that hash only and leaves the
  other hashes of the block alone. The handler is silent at a falsy hash, but its
  \<^verbatim>\<open>return\<close> inside the loop also drops every later hash: for the block
  \<^verbatim>\<open>{transactions: ["0xaa", null, "0xbb"]}\<close> the only lookup issued is that of
  \<^verbatim>\<open>"0xaa"\<close>, and \<^verbatim>\<open>"0xbb"\<close> is never looked up.
\<close>

theorem missing_hash_drops_later_hashes:
  "getBlockData_callback_1 116611
       (Obj \<lparr>transactions = [Str ''0xaa'', Null, Str ''0xbb'']\<rparr>) =
     Inr [GetTxReceipt ''left'' (Str ''0xaa'') (getTxReceipt_callback_1 116611)]
   \<and> (case getBlockData_callback_1 116611
               (Obj \<lparr>transactions = [Str ''0xaa'', Null, Str ''0xbb'']\<rparr>) of
         Inl e \<Rightarrow> False
       | Inr evs \<Rightarrow> (''left'', Str ''0xbb'') \<notin> set (receipt_lookups evs))"
  by (simp add: getBlockData_callback_1_def transactions_loop_1_takeWhile)

section \<open>The receipt completion handler\<close>

text \<open>
  Claim C7. For every receipt whose contract-address field is falsy (absent,
  \<^verbatim>\<open>null\<close> or the empty string), the receipt handler prints no line.
\<close>

theorem no_address_no_line:
  assumes "\<not> truthy (contractAddress r)"
  shows "getTxReceipt_callback_1 i (Obj r) = Inr []"
  using assms by (simp add: getTxReceipt_callback_1_def get_contractAddress_def)

theorem no_address_no_line_witness:
  "\<not> truthy (contractAddress \<lparr>contractAddress = Null\<rparr>)
   \<and> getTxReceipt_callback_1 116611 (Obj \<lparr>contractAddress = Null\<rparr>) = Inr []
   \<and> getTxReceipt_callback_1 116611 (Obj \<lparr>contractAddress = Undefined\<rparr>) = Inr []
   \<and> getTxReceipt_callback_1 116611 (Obj \<lparr>contractAddress = Str []\<rparr>) = Inr []"
  using no_address_no_line [of "\<lparr>contractAddress = Null\<rparr>" 116611]
    no_address_no_line [of "\<lparr>contractAddress = Undefined\<rparr>" 116611]
    no_address_no_line [of "\<lparr>contractAddress = Str []\<rparr>" 116611]
  by simp

text \<open>
  Claim C9. The receipt handler has no guard for an absent argument: it reads
  \<^verbatim>\<open>contractAddress\<close> of whatever it is given, so it throws exactly when the delivered
  value is \<^verbatim>\<open>undefined\<close> or \<^verbatim>\<open>null\<close>, and returns for every other value. The block
  handler, which has the guard, returns for both. This holds in both scripts.
\<close>

theorem receipt_handler_unguarded:
  "(getTxReceipt_callback_1 i txRes = Inl TypeError
      \<longleftrightarrow> txRes = Prim Undefined \<or> txRes = Prim Null)
   \<and> (getTxReceipt_callback_2 i txRes = Inl TypeError
      \<longleftrightarrow> txRes = Prim Undefined \<or> txRes = Prim Null)
   \<and> (isl (getTxReceipt_callback_1 i txRes) \<longleftrightarrow> isl (get_contractAddress txRes))
   \<and> (isl (getTxReceipt_callback_2 i txRes) \<longleftrightarrow> isl (get_contractAddress txRes))
   \<and> getBlockData_callback_1 i (Prim Undefined) = Inr []
   \<and> getBlockData_callback_1 i (Prim Null) = Inr []
   \<and> getBlockData_callback_2 i (Prim Undefined) = Inr []
   \<and> getBlockData_callback_2 i (Prim Null) = Inr []"
  by (simp add: getTxReceipt_callback_1_def getTxReceipt_callback_2_def
      get_contractAddress_def getBlockData_callback_1_def getBlockData_callback_2_def
      split: jsarg.split jsval.split)

text \<open>
  Claim C2, as amended. For every receipt whose contract-address field is truthy, the
  receipt handler prints exactly one line. The line contains the number of the block in
  whose handler the lookup was issued and the contract address, and it is the four
  arguments of \<^verbatim>\<open>console.log\<close> separated by single spaces:
  \<^verbatim>\<open>block number =  <N> contract address =  <address>\<close>, with two spaces after each
  \<^verbatim>\<open>=\<close>, since both string arguments end with a space.
\<close>

theorem address_prints_one_line:
  assumes "truthy (contractAddress r)"
  shows "let line = ''block number =  '' @ show_nat i @ '' contract address =  ''
                      @ render_val (contractAddress r)
         in getTxReceipt_callback_1 i (Obj r) = Inr [ConsoleLog line]
            \<and> Str (render_val (contractAddress r)) = contractAddress r
            \<and> sublist (show_nat i) line
            \<and> sublist (render_val (contractAddress r)) line"
proof -
  from assms obtain a where a: "contractAddress r = Str a" "a \<noteq> []"
    by (auto simp: truthy_iff)
  have "sublist (show_nat i)
          (''block number =  '' @ show_nat i @ '' contract address =  '' @ a)"
    unfolding sublist_def by blast
  moreover have "sublist a
          ((''block number =  '' @ show_nat i @ '' contract address =  '') @ a @ [])"
    unfolding sublist_def by blast
  ultimately show ?thesis
    using a
    by (simp add: Let_def getTxReceipt_callback_1_def get_contractAddress_def
        console_log_def)
qed

theorem address_prints_one_line_witness:
  "truthy (contractAddress \<lparr>contractAddress = Str ''0x006e27b6''\<rparr>)
   \<and> getTxReceipt_callback_1 116611 (Obj \<lparr>contractAddress = Str ''0x006e27b6''\<rparr>) =
       Inr [ConsoleLog ''block number =  116611 contract address =  0x006e27b6'']"
  using address_prints_one_line [of "\<lparr>contractAddress = Str ''0x006e27b6''\<rparr>" 116611]
  by (simp add: Let_def show_nat_116611)

text \<open>
  Claim C2, as stated, gives the line one space after each \<^verbatim>\<open>=\<close>. For block 116611 and
  the address \<^verbatim>\<open>0xabc\<close> the handler does not print that line.
\<close>

theorem single_spaced_line_counterexample:
  "truthy (contractAddress \<lparr>contractAddress = Str ''0xabc''\<rparr>)
   \<and> getTxReceipt_callback_1 116611 (Obj \<lparr>contractAddress = Str ''0xabc''\<rparr>) \<noteq>
       Inr [ConsoleLog ''block number = 116611 contract address = 0xabc'']"
  by (simp add: getTxReceipt_callback_1_def get_contractAddress_def console_log_def
      show_nat_116611)

section \<open>The two scripts\<close>

text \<open>
  Claim C8. Both scripts register the same function as the handler of a block, and differ
  in the range they scan: the first issues one block lookup with the label \<open>left\<close> for
  every \<open>n\<close> with \<open>116611 \<le> n < 116711\<close>, the second for every \<open>n\<close> with
  \<open>258728 \<le> n < 258928\<close>, and neither issues any other block lookup.
\<close>

theorem scripts_same_handler_fixed_ranges:
  "getBlockData_callback_1 = getBlockData_callback_2
   \<and> script_1 = map (\<lambda>n. GetBlockData ''left'' n (getBlockData_callback_1 n)) [116611..<116711]
   \<and> script_2 = map (\<lambda>n. GetBlockData ''left'' n (getBlockData_callback_2 n)) [258728..<258928]
   \<and> count_list (block_lookups script_1) (l, n) =
       (if l = ''left'' \<and> 116611 \<le> n \<and> n < 116711 then 1 else 0)
   \<and> count_list (block_lookups script_2) (l, n) =
       (if l = ''left'' \<and> 258728 \<le> n \<and> n < 258928 then 1 else 0)"
proof -
  have s1: "script_1 = map (\<lambda>n. GetBlockData ''left'' n (getBlockData_callback_1 n)) [116611..<116711]"
    unfolding script_1_def by (rule script_1_loop_upt)
  have s2: "script_2 = map (\<lambda>n. GetBlockData ''left'' n (getBlockData_callback_2 n)) [258728..<258928]"
    unfolding script_2_def by (rule script_2_loop_upt)
  have c1: "count_list (block_lookups script_1) (l, n) =
       (if l = ''left'' \<and> 116611 \<le> n \<and> n < 116711 then 1 else 0)"
    unfolding s1 block_lookups_map count_list_Pair count_list_upt by auto
  have c2: "count_list (block_lookups script_2) (l, n) =
       (if l = ''left'' \<and> 258728 \<le> n \<and> n < 258928 then 1 else 0)"
    unfolding s2 block_lookups_map count_list_Pair count_list_upt by auto
  from getBlockData_callbacks_eq s1 s2 c1 c2 show ?thesis by blast
qed

end
